theory Spec2Isabelle
  imports Complex_Main "HOL-Library.Sublist"
begin

section \<open>Values, errors and the Python operations the script applies to them\<close>

text \<open>
  The script (\<^verbatim>\<open>src/scripts.py\<close>) works on whatever \<^verbatim>\<open>response.json()\<close> returns: an
  untyped JSON value. A dict is an association list read with \<open>map_of\<close>. JSON integers and
  floats are both \<open>JNum\<close>, carried as exact reals: rounding of floating-point
  multiplication, NaN and infinities are outside this model.
\<close>

datatype json =
    JNull
  | JBool bool
  | JNum real
  | JStr string
  | JArr "json list"
  | JObj "(string \<times> json) list"

text \<open>
  Every \<^verbatim>\<open>raise Exception(...)\<close> of the script is a constructor named after the failure
  it reports; \<open>TypeError\<close>, \<open>AttributeError\<close> and \<open>KeyError\<close> are what the interpreter raises on
  a payload of the wrong shape; \<open>LibraryError\<close> is anything raised inside
  \<^verbatim>\<open>requests\<close> or \<^verbatim>\<open>pandas\<close> (no connection, a body that is not JSON, an unreadable file).
\<close>

datatype error =
    SubmissionError                \<comment> \<open>\<^verbatim>\<open>Exception("Error: No ID found in the POST response.")\<close>\<close>
  | ModerationFailedError json     \<comment> \<open>\<^verbatim>\<open>Exception(f"Moderation failed: {result}")\<close>\<close>
  | UnexpectedStatusError json     \<comment> \<open>\<^verbatim>\<open>Exception(f"Unexpected status: {status}")\<close>\<close>
  | MissingColumnError             \<comment> \<open>\<^verbatim>\<open>Exception("Error: '...' column is missing in the input file.")\<close>\<close>
  | TypeError
  | AttributeError
  | KeyError
  | LibraryError string

text \<open>\<open>field x k\<close>: the value under key \<open>k\<close> when \<open>x\<close> is a dict that has it.\<close>

fun field :: "json \<Rightarrow> string \<Rightarrow> json option" where
  "field (JObj kvs) k = map_of kvs k"
| "field _ k = None"

text \<open>\<^verbatim>\<open>d.get(k, default)\<close>: only a dict has the method.\<close>

fun py_get :: "json \<Rightarrow> string \<Rightarrow> json \<Rightarrow> error + json" where
  "py_get (JObj kvs) k dflt = Inr (case map_of kvs k of None \<Rightarrow> dflt | Some v \<Rightarrow> v)"
| "py_get _ k dflt = Inl AttributeError"

fun is_substring :: "string \<Rightarrow> string \<Rightarrow> bool" where
  "is_substring pat [] = (pat = [])"
| "is_substring pat (c # cs) = (prefix pat (c # cs) \<or> is_substring pat cs)"

text \<open>
  \<^verbatim>\<open>k in x\<close> for a string \<open>k\<close>: a key of a dict, an element of a list, a substring of a
  string; \<^verbatim>\<open>None\<close>, a bool and a number are not iterable.
\<close>

fun py_contains :: "string \<Rightarrow> json \<Rightarrow> error + bool" where
  "py_contains k (JObj kvs) = Inr (k \<in> set (map fst kvs))"
| "py_contains k (JArr xs) = Inr (JStr k \<in> set xs)"
| "py_contains k (JStr s) = Inr (is_substring k s)"
| "py_contains k _ = Inl TypeError"

text \<open>\<^verbatim>\<open>x[k]\<close> for a string \<open>k\<close>: a list and a string take integer indices only.\<close>

fun py_getitem :: "json \<Rightarrow> string \<Rightarrow> error + json" where
  "py_getitem (JObj kvs) k = (case map_of kvs k of None \<Rightarrow> Inl KeyError | Some v \<Rightarrow> Inr v)"
| "py_getitem _ k = Inl TypeError"

text \<open>
  \<^verbatim>\<open>for x in v\<close>: the elements of a list, the keys of a dict, the characters of a string
  (here one per byte).
\<close>

fun py_iter :: "json \<Rightarrow> error + json list" where
  "py_iter (JArr xs) = Inr xs"
| "py_iter (JObj kvs) = Inr (map JStr (remdups (map fst kvs)))"
| "py_iter (JStr s) = Inr (map (\<lambda>c. JStr [c]) s)"
| "py_iter _ = Inl TypeError"

text \<open>
  The operand of a comparison with a number, or of \<^verbatim>\<open>* 100\<close> after one: a number, or a bool
  (Python's \<^verbatim>\<open>True\<close> is 1); anything else raises \<^verbatim>\<open>TypeError\<close>.
\<close>

fun py_num :: "json \<Rightarrow> error + real" where
  "py_num (JNum r) = Inr r"
| "py_num (JBool b) = Inr (if b then 1 else 0)"
| "py_num _ = Inl TypeError"

section \<open>Result interpreter: \<^verbatim>\<open>process_moderation_results\<close>\<close>

text \<open>
  The inner loop over the sub-items (lines 101--104), with the two loop variables
  \<^verbatim>\<open>highest_category\<close> and \<^verbatim>\<open>highest_score\<close> as accumulators.
\<close>

fun scan_items :: "json list \<Rightarrow> json \<Rightarrow> real \<Rightarrow> error + (json \<times> real)" where
  "scan_items [] highest_category highest_score = Inr (highest_category, highest_score)"
| "scan_items (subitem # rest) highest_category highest_score =
     (case py_get subitem ''likelihood_score'' (JNum 0) of
        Inl e \<Rightarrow> Inl e
      | Inr v \<Rightarrow>
         (case py_num v of
            Inl e \<Rightarrow> Inl e
          | Inr score \<Rightarrow>
             if score > highest_score then
               (case py_get subitem ''category'' (JStr ''Unknown'') of
                  Inl e \<Rightarrow> Inl e
                | Inr c \<Rightarrow> scan_items rest c score)
             else scan_items rest highest_category highest_score))"

text \<open>
  The body of the outer loop (lines 96--105) for one entry of the results list; the loop
  returns in its first iteration.
\<close>

definition interpret_entry :: "json \<Rightarrow> real \<Rightarrow> error + (real \<times> json \<times> string)" where
  "interpret_entry result rejection_threshold =
     (case py_get result ''nsfw_likelihood_score'' (JNum 0) of
        Inl e \<Rightarrow> Inl e
      | Inr v \<Rightarrow>
         (case py_num v of
            Inl e \<Rightarrow> Inl e
          | Inr nsfw_likelihood_score \<Rightarrow>
             (case py_get result ''items'' (JArr []) of
                Inl e \<Rightarrow> Inl e
              | Inr items \<Rightarrow>
                 (case py_iter items of
                    Inl e \<Rightarrow> Inl e
                  | Inr subitems \<Rightarrow>
                     (case scan_items subitems (JStr ''Unknown'') 0 of
                        Inl e \<Rightarrow> Inl e
                      | Inr (highest_category, highest_score) \<Rightarrow>
                         Inr (nsfw_likelihood_score * 100, highest_category,
                              if nsfw_likelihood_score \<ge> rejection_threshold
                              then ''rejected'' else ''validated''))))))"

definition process_moderation_results :: "json \<Rightarrow> real \<Rightarrow> error + (real \<times> json \<times> string)" where
  "process_moderation_results results rejection_threshold =
     (case py_get results ''content'' (JObj []) of
        Inl e \<Rightarrow> Inl e
      | Inr content \<Rightarrow>
         (case py_get content ''results'' (JObj []) of
            Inl e \<Rightarrow> Inl e
          | Inr moderation_results \<Rightarrow>
             (case py_contains ''text__moderation'' moderation_results of
                Inl e \<Rightarrow> Inl e
              | Inr present \<Rightarrow>
                 if \<not> present then Inr (0, JStr ''Unknown'', ''success'')
                 else
                   (case py_getitem moderation_results ''text__moderation'' of
                      Inl e \<Rightarrow> Inl e
                    | Inr text_moderation \<Rightarrow>
                       (case py_get text_moderation ''results'' (JArr []) of
                          Inl e \<Rightarrow> Inl e
                        | Inr text_results \<Rightarrow>
                           (case py_iter text_results of
                              Inl e \<Rightarrow> Inl e
                            | Inr [] \<Rightarrow> Inr (0, JStr ''Unknown'', ''succeeded'')
                            | Inr (result # _) \<Rightarrow>
                                interpret_entry result rejection_threshold))))))"

section \<open>The world outside the script\<close>

text \<open>
  The two settings read by \<^verbatim>\<open>os.getenv\<close>: \<open>None\<close> when the variable is not set.
\<close>

record settings =
  API_URL_POST :: "string option"
  API_URL_GET :: "string option"

text \<open>
  A table as \<^verbatim>\<open>pandas\<close> holds it: the column names in order, and one row per index
  \<open>0, 1, ...\<close> (the \<^verbatim>\<open>RangeIndex\<close> that \<^verbatim>\<open>read_excel\<close> builds). A row has a cell for every
  column, so it is a total function of the column name; only the names in \<open>columns\<close> mean
  anything.
\<close>

record dataframe =
  columns :: "string list"
  rows :: "(string \<Rightarrow> json) list"

text \<open>What the script does to the world, in the order it does it.\<close>

datatype event =
    HttpPost "string option" json     \<comment> \<open>\<^verbatim>\<open>requests.post(url, json=payload, headers=headers)\<close>\<close>
  | HttpGet string                    \<comment> \<open>\<^verbatim>\<open>requests.get(url, headers=headers)\<close>\<close>
  | Sleep nat                         \<comment> \<open>\<^verbatim>\<open>time.sleep(seconds)\<close>\<close>
  | TqdmWrite nat error               \<comment> \<open>\<^verbatim>\<open>tqdm.write(f"Error processing row {index}: {error}")\<close>\<close>
  | ToExcel string                    \<comment> \<open>\<^verbatim>\<open>df.to_excel(name, index=False)\<close>\<close>
  | Print string

text \<open>
  The environment answers. \<open>http\<close> maps the history of events, the request being its last
  one, to what \<^verbatim>\<open>response.json()\<close> gives: \<open>Inl\<close> when the library raises instead. So the
  API may answer any request in any way, and differently each time. \<open>py_repr\<close> is Python's
  \<^verbatim>\<open>str()\<close> of a value that is not a string.
\<close>

record environment =
  http :: "event list \<Rightarrow> string + json"
  read_excel :: "string \<Rightarrow> string + dataframe"
  to_excel :: "string \<Rightarrow> dataframe \<Rightarrow> string option"
  py_repr :: "json \<Rightarrow> string"

section \<open>Moderation client\<close>

text \<open>\<^verbatim>\<open>s.replace(old, new)\<close>: the occurrences of \<open>old\<close> from the left, not overlapping.\<close>

function replace_occurrences :: "string \<Rightarrow> string \<Rightarrow> string \<Rightarrow> string" where
  "replace_occurrences [] old new = []"
| "replace_occurrences (c # cs) old new =
     (if old \<noteq> [] \<and> prefix old (c # cs)
      then new @ replace_occurrences (drop (length old) (c # cs)) old new
      else c # replace_occurrences cs old new)"
  by pat_completeness auto
termination
  by (relation "measure (\<lambda>(s, old, new). length s)") auto

definition str_replace :: "string \<Rightarrow> string \<Rightarrow> string \<Rightarrow> string" where
  "str_replace s old new =
     (if old = [] then new @ concat (map (\<lambda>c. c # new) s)
      else replace_occurrences s old new)"

definition post_text_to_moderate ::
  "settings \<Rightarrow> environment \<Rightarrow> json \<Rightarrow> event list \<Rightarrow> (error + json) \<times> event list" where
  "post_text_to_moderate st env text tr =
     (case http env (tr @ [HttpPost (API_URL_POST st) (JObj [(''text'', text)])]) of
        Inl m \<Rightarrow> (Inl (LibraryError m), tr @ [HttpPost (API_URL_POST st) (JObj [(''text'', text)])])
      | Inr result \<Rightarrow>
         (case py_contains ''id'' result of
            Inl e \<Rightarrow> (Inl e, tr @ [HttpPost (API_URL_POST st) (JObj [(''text'', text)])])
          | Inr present \<Rightarrow>
             if present
             then (py_getitem result ''id'',
                   tr @ [HttpPost (API_URL_POST st) (JObj [(''text'', text)])])
             else (Inl SubmissionError,
                   tr @ [HttpPost (API_URL_POST st) (JObj [(''text'', text)])])))"

text \<open>\<^verbatim>\<open>result.get("content", {}).get("status", "")\<close> (line 68).\<close>

definition reported_status :: "json \<Rightarrow> error + json" where
  "reported_status result =
     (case py_get result ''content'' (JObj []) of
        Inl e \<Rightarrow> Inl e
      | Inr content \<Rightarrow> py_get content ''status'' (JStr []))"

text \<open>
  The \<^verbatim>\<open>while True\<close> loop of \<^verbatim>\<open>get_moderation_result\<close> (lines 65--77). Nothing bounds it:
  where the API answers \<^verbatim>\<open>processing\<close> for ever the loop does not return, and the value
  is \<open>None\<close>.
\<close>

partial_function (option) get_moderation_result_loop ::
  "environment \<Rightarrow> string \<Rightarrow> event list \<Rightarrow> ((error + json) \<times> event list) option" where
  "get_moderation_result_loop env url tr =
     (case http env (tr @ [HttpGet url]) of
        Inl m \<Rightarrow> Some (Inl (LibraryError m), tr @ [HttpGet url])
      | Inr result \<Rightarrow>
         (case reported_status result of
            Inl e \<Rightarrow> Some (Inl e, tr @ [HttpGet url])
          | Inr status \<Rightarrow>
             if status = JStr ''succeeded'' then Some (Inr result, tr @ [HttpGet url])
             else if status = JStr ''failed''
               then Some (Inl (ModerationFailedError result), tr @ [HttpGet url])
             else if status = JStr ''processing''
               then get_moderation_result_loop env url (tr @ [HttpGet url] @ [Sleep 5])
             else Some (Inl (UnexpectedStatusError status), tr @ [HttpGet url])))"

text \<open>
  Line 62 first: \<^verbatim>\<open>API_URL_GET.replace("{execution_id}", execution_id)\<close> needs the setting to
  be set and the identifier to be a string.
\<close>

definition get_moderation_result ::
  "settings \<Rightarrow> environment \<Rightarrow> json \<Rightarrow> event list \<Rightarrow> ((error + json) \<times> event list) option" where
  "get_moderation_result st env execution_id tr =
     (case API_URL_GET st of
        None \<Rightarrow> Some (Inl AttributeError, tr)
      | Some template \<Rightarrow>
         (case execution_id of
            JStr h \<Rightarrow> get_moderation_result_loop env (str_replace template ''{execution_id}'' h) tr
          | _ \<Rightarrow> Some (Inl TypeError, tr)))"

section \<open>Batch runner: \<^verbatim>\<open>process_file\<close>\<close>

text \<open>The four column names, as the UTF-8 bytes of the source file.\<close>

definition data_column :: string where
  "data_column = ''Donn'' @ [CHR 0xC3, CHR 0xA9] @ ''es '' @ [CHR 0xC3, CHR 0xA0] @ '' tester''"

definition rate_column :: string where
  "rate_column = ''Taux de rejet (%)''"

definition category_column :: string where
  "category_column = ''Cat'' @ [CHR 0xC3, CHR 0xA9] @ ''gorie''"

definition status_column :: string where
  "status_column = ''Status''"

text \<open>\<^verbatim>\<open>df[name] = value\<close>: a new last column, or every cell of the one that exists.\<close>

definition set_column :: "string \<Rightarrow> json \<Rightarrow> dataframe \<Rightarrow> dataframe" where
  "set_column name v df =
     \<lparr>columns = (if name \<in> set (columns df) then columns df else columns df @ [name]),
      rows = map (\<lambda>r. r(name := v)) (rows df)\<rparr>"

text \<open>
  \<^verbatim>\<open>df.at[index, name] = value\<close>. For an index that the table does not have
  \<^verbatim>\<open>pandas\<close> would append a row; the loop passes the indices of the table only, and the
  model leaves the table as it is for any other.
\<close>

definition df_at :: "nat \<Rightarrow> string \<Rightarrow> json \<Rightarrow> dataframe \<Rightarrow> dataframe" where
  "df_at index name v df =
     (if index < length (rows df)
      then df\<lparr>rows := (rows df)[index := ((rows df) ! index)(name := v)]\<rparr>
      else df)"

text \<open>\<^verbatim>\<open>df.iterrows()\<close>: each index with its row, read when the loop starts.\<close>

definition iterrows :: "dataframe \<Rightarrow> (nat \<times> (string \<Rightarrow> json)) list" where
  "iterrows df = zip [0..<length (rows df)] (rows df)"

definition py_str :: "environment \<Rightarrow> json \<Rightarrow> string" where
  "py_str env v = (case v of JStr s \<Rightarrow> s | _ \<Rightarrow> py_repr env v)"

text \<open>
  Lines 131--133, the three calls inside \<^verbatim>\<open>try\<close> (the same three as in
  \<^verbatim>\<open>test_single_text\<close>): \<open>Inl\<close> is the exception that leaves the block.
\<close>

definition submit_poll_interpret ::
  "settings \<Rightarrow> environment \<Rightarrow> json \<Rightarrow> event list
     \<Rightarrow> ((error + (real \<times> json \<times> string)) \<times> event list) option" where
  "submit_poll_interpret st env text tr =
     (case post_text_to_moderate st env text tr of
        (Inl e, tr1) \<Rightarrow> Some (Inl e, tr1)
      | (Inr execution_id, tr1) \<Rightarrow>
         (case get_moderation_result st env execution_id tr1 of
            None \<Rightarrow> None
          | Some (Inl e, tr2) \<Rightarrow> Some (Inl e, tr2)
          | Some (Inr results, tr2) \<Rightarrow> Some (process_moderation_results results (2 / 10), tr2)))"

text \<open>
  One turn of the loop over the rows (lines 129--139). The progress bar that \<^verbatim>\<open>tqdm\<close>
  draws around the loop is output only and is left out.
\<close>

definition process_row ::
  "settings \<Rightarrow> environment \<Rightarrow> nat \<Rightarrow> (string \<Rightarrow> json) \<Rightarrow> dataframe \<Rightarrow> event list
     \<Rightarrow> (dataframe \<times> event list) option" where
  "process_row st env index row df tr =
     (case submit_poll_interpret st env (row data_column) tr of
        None \<Rightarrow> None
      | Some (Inr (rejection_chance, category, status), tr1) \<Rightarrow>
          Some (df_at index status_column (JStr status)
                 (df_at index category_column (JStr (py_str env category))
                   (df_at index rate_column (JNum rejection_chance) df)), tr1)
      | Some (Inl e, tr1) \<Rightarrow>
          Some (df_at index status_column (JStr ''Error'') df, tr1 @ [TqdmWrite index e]))"

fun process_rows ::
  "settings \<Rightarrow> environment \<Rightarrow> (nat \<times> (string \<Rightarrow> json)) list \<Rightarrow> dataframe \<Rightarrow> event list
     \<Rightarrow> (dataframe \<times> event list) option" where
  "process_rows st env [] df tr = Some (df, tr)"
| "process_rows st env ((index, row) # rest) df tr =
     (case process_row st env index row df tr of
        None \<Rightarrow> None
      | Some (df', tr') \<Rightarrow> process_rows st env rest df' tr')"

text \<open>Lines 124--126: the three result columns with their default cells.\<close>

definition add_result_columns :: "dataframe \<Rightarrow> dataframe" where
  "add_result_columns df =
     set_column status_column (JStr [])
       (set_column category_column (JStr [])
         (set_column rate_column (JNum 0) df))"

text \<open>
  \<^verbatim>\<open>process_file\<close> returns nothing in Python; the model returns the table it hands to
  \<^verbatim>\<open>to_excel\<close>, beside the events.
\<close>

definition process_file ::
  "settings \<Rightarrow> environment \<Rightarrow> string \<Rightarrow> event list
     \<Rightarrow> ((error + dataframe) \<times> event list) option" where
  "process_file st env file_path tr =
     (case read_excel env file_path of
        Inl m \<Rightarrow> Some (Inl (LibraryError m), tr)
      | Inr df0 \<Rightarrow>
         if data_column \<notin> set (columns df0) then Some (Inl MissingColumnError, tr)
         else
           (case process_rows st env (iterrows (add_result_columns df0))
                   (add_result_columns df0) tr of
              None \<Rightarrow> None
            | Some (df, tr') \<Rightarrow>
               (case to_excel env ''SyntheticDataResult.xlsx'' df of
                  Some m \<Rightarrow> Some (Inl (LibraryError m), tr' @ [ToExcel ''SyntheticDataResult.xlsx''])
                | None \<Rightarrow>
                    Some (Inr df, tr' @ [ToExcel ''SyntheticDataResult.xlsx'',
                                         Print ''Results saved'']))))"

section \<open>Vocabulary of the properties\<close>

text \<open>
  A payload of the shape the API documents is
  \<^verbatim>\<open>{"content": {"status": s, "results": {"text__moderation": {"results": [entry, ...]}}}}\<close>,
  an entry being \<^verbatim>\<open>{"nsfw_likelihood_score": x, "items": [{"category": c, "likelihood_score": y}, ...]}\<close>.
  The functions below read such a payload; none of them is used by the model of the script.
\<close>

definition text_moderation_section :: "json \<Rightarrow> json option" where
  "text_moderation_section payload =
     (case field payload ''content'' of
        None \<Rightarrow> None
      | Some content \<Rightarrow>
         (case field content ''results'' of
            None \<Rightarrow> None
          | Some moderation_results \<Rightarrow> field moderation_results ''text__moderation''))"

text \<open>
  A payload without the section: a dict whose \<^verbatim>\<open>content\<close>, or the \<^verbatim>\<open>results\<close> in it, is
  absent, or whose \<^verbatim>\<open>results\<close> dict has no key \<^verbatim>\<open>text__moderation\<close>.
\<close>

definition lacks_text_moderation :: "json \<Rightarrow> bool" where
  "lacks_text_moderation payload =
     (case payload of
        JObj p \<Rightarrow>
         (case map_of p ''content'' of
            None \<Rightarrow> True
          | Some (JObj c) \<Rightarrow>
             (case map_of c ''results'' of
                None \<Rightarrow> True
              | Some (JObj r) \<Rightarrow> map_of r ''text__moderation'' = None
              | Some _ \<Rightarrow> False)
          | Some _ \<Rightarrow> False)
      | _ \<Rightarrow> False)"

text \<open>The sub-items of an entry: its \<^verbatim>\<open>items\<close> list, empty when the key is absent.\<close>

definition entry_items :: "json \<Rightarrow> json list option" where
  "entry_items entry =
     (case entry of
        JObj kvs \<Rightarrow>
         (case map_of kvs ''items'' of
            None \<Rightarrow> Some []
          | Some (JArr subs) \<Rightarrow> Some subs
          | Some _ \<Rightarrow> None)
      | _ \<Rightarrow> None)"

text \<open>The score of an entry: 0 when the key is absent, as \<^verbatim>\<open>get\<close> defaults it.\<close>

definition entry_score :: "json \<Rightarrow> real option" where
  "entry_score entry =
     (case entry of
        JObj kvs \<Rightarrow>
         (case map_of kvs ''nsfw_likelihood_score'' of
            None \<Rightarrow> Some 0
          | Some (JNum r) \<Rightarrow> Some r
          | Some (JBool b) \<Rightarrow> Some (if b then 1 else 0)
          | Some _ \<Rightarrow> None)
      | _ \<Rightarrow> None)"

text \<open>A sub-item: a dict whose \<^verbatim>\<open>likelihood_score\<close>, if it has one, is a number.\<close>

fun is_item :: "json \<Rightarrow> bool" where
  "is_item (JObj kvs) =
     (case map_of kvs ''likelihood_score'' of
        None \<Rightarrow> True
      | Some (JNum r) \<Rightarrow> True
      | Some (JBool b) \<Rightarrow> True
      | Some _ \<Rightarrow> False)"
| "is_item _ = False"

fun num_val :: "json \<Rightarrow> real" where
  "num_val (JNum r) = r"
| "num_val (JBool b) = (if b then 1 else 0)"
| "num_val _ = 0"

definition item_score :: "json \<Rightarrow> real" where
  "item_score x = (case field x ''likelihood_score'' of None \<Rightarrow> 0 | Some v \<Rightarrow> num_val v)"

definition item_label :: "json \<Rightarrow> json" where
  "item_label x = (case field x ''category'' of None \<Rightarrow> JStr ''Unknown'' | Some v \<Rightarrow> v)"

text \<open>The seconds slept in a run, in order.\<close>

fun sleeps :: "event list \<Rightarrow> nat list" where
  "sleeps [] = []"
| "sleeps (Sleep n # es) = n # sleeps es"
| "sleeps (e # es) = sleeps es"




section \<open>Concrete payloads, tables and environments\<close>

definition mk_payload :: "string \<Rightarrow> json list \<Rightarrow> json" where
  "mk_payload status entries =
     JObj [(''content'', JObj [(''status'', JStr status),
        (''results'', JObj [(''text__moderation'', JObj [(''results'', JArr entries)])])])]"

definition mk_entry :: "real \<Rightarrow> json list \<Rightarrow> json" where
  "mk_entry s subs = JObj [(''nsfw_likelihood_score'', JNum s), (''items'', JArr subs)]"

definition mk_item :: "string \<Rightarrow> real \<Rightarrow> json" where
  "mk_item c s = JObj [(''category'', JStr c), (''likelihood_score'', JNum s)]"

definition status_payload :: "string \<Rightarrow> json" where
  "status_payload s = JObj [(''content'', JObj [(''status'', JStr s)])]"

fun is_http_get :: "event \<Rightarrow> bool" where
  "is_http_get (HttpGet url) = True"
| "is_http_get e = False"

text \<open>
  An API for tests: it answers a POST by \<open>post_reply\<close> of the payload, and the GET number
  \<open>k\<close> of the run (from 0) by the entry \<open>k\<close> of \<open>script\<close>, or by \<open>final\<close> once the script is
  used up.
\<close>

definition scripted_http ::
  "(json \<Rightarrow> string + json) \<Rightarrow> json list \<Rightarrow> json \<Rightarrow> event list \<Rightarrow> string + json" where
  "scripted_http post_reply script final tr =
     (case rev tr of
        HttpPost url payload # earlier \<Rightarrow> post_reply payload
      | HttpGet url # earlier \<Rightarrow>
          Inr (if length (filter is_http_get earlier) < length script
               then script ! length (filter is_http_get earlier)
               else final)
      | _ \<Rightarrow> Inl ''no request'')"

definition reply_with_id :: "json \<Rightarrow> string + json" where
  "reply_with_id payload = Inr (JObj [(''id'', JStr ''42'')])"

definition reply_without_id :: "json \<Rightarrow> string + json" where
  "reply_without_id payload = Inr (JObj [(''detail'', JStr ''bad request'')])"

definition test_env ::
  "(event list \<Rightarrow> string + json) \<Rightarrow> (string \<Rightarrow> string + dataframe) \<Rightarrow> environment" where
  "test_env answers files =
     \<lparr>http = answers, read_excel = files, to_excel = (\<lambda>name df. None), py_repr = (\<lambda>v. ''?'')\<rparr>"

definition no_files :: "string \<Rightarrow> string + dataframe" where
  "no_files path = Inl ''no such file''"

definition demo_settings :: settings where
  "demo_settings = \<lparr>API_URL_POST = Some ''/m'', API_URL_GET = Some ''/r/{execution_id}''\<rparr>"

text \<open>
  A batch of three rows. The API has no \<^verbatim>\<open>id\<close> for the text \<^verbatim>\<open>two\<close>, so the second
  submission fails; every poll is answered at once by a payload that reports
  \<^verbatim>\<open>succeeded\<close>.
\<close>

definition demo_payload :: json where
  "demo_payload =
     mk_payload ''succeeded''
       [mk_entry (5 / 10) [mk_item ''A'' (3 / 10), mk_item ''B'' (9 / 10), mk_item ''C'' (9 / 10)]]"

definition reply_unless_two :: "json \<Rightarrow> string + json" where
  "reply_unless_two payload =
     (if payload = JObj [(''text'', JStr ''two'')]
      then Inr (JObj [(''detail'', JStr ''bad request'')])
      else Inr (JObj [(''id'', JStr ''42'')]))"

definition demo_row :: "string \<Rightarrow> string \<Rightarrow> json" where
  "demo_row text = (\<lambda>c. JNull)(data_column := JStr text)"

definition demo_table :: dataframe where
  "demo_table = \<lparr>columns = [data_column],
                  rows = [demo_row ''one'', demo_row ''two'', demo_row ''three'']\<rparr>"

definition demo_files :: "string \<Rightarrow> string + dataframe" where
  "demo_files path =
     (if path = ''in.xlsx'' then Inr demo_table
      else if path = ''other.xlsx'' then Inr \<lparr>columns = [''Text''], rows = [\<lambda>c. JStr ''one'']\<rparr>
      else Inl ''no such file'')"

definition demo_env :: environment where
  "demo_env = test_env (scripted_http reply_unless_two [] demo_payload) demo_files"


section \<open>Lemmas on the interpreter\<close>

lemma field_SomeD: "field x k = Some v \<Longrightarrow> \<exists>kvs. x = JObj kvs \<and> map_of kvs k = Some v"
  by (cases x) simp_all

lemma key_in_iff: "k \<in> fst ` set kvs \<longleftrightarrow> map_of kvs k \<noteq> None"
  by (simp add: map_of_eq_None_iff)

lemma section_path:
  assumes "text_moderation_section payload = Some tm"
  obtains p c r where "payload = JObj p" "map_of p ''content'' = Some (JObj c)"
    "map_of c ''results'' = Some (JObj r)" "map_of r ''text__moderation'' = Some tm"
proof -
  from assms obtain content mr where
    c: "field payload ''content'' = Some content" and
    r: "field content ''results'' = Some mr" and
    s: "field mr ''text__moderation'' = Some tm"
    by (auto simp: text_moderation_section_def split: option.splits)
  from c obtain p where p: "payload = JObj p" "map_of p ''content'' = Some content"
    using field_SomeD by blast
  from r obtain ckvs where ck: "content = JObj ckvs" "map_of ckvs ''results'' = Some mr"
    using field_SomeD by blast
  from s obtain rk where rk: "mr = JObj rk" "map_of rk ''text__moderation'' = Some tm"
    using field_SomeD by blast
  show thesis using that p ck rk by simp
qed

lemma process_moderation_results_section:
  assumes "text_moderation_section payload = Some tm"
    and "field tm ''results'' = Some (JArr entries)"
  shows "process_moderation_results payload t =
     (case entries of
        [] \<Rightarrow> Inr (0, JStr ''Unknown'', ''succeeded'')
      | entry # rest \<Rightarrow> interpret_entry entry t)"
proof -
  from assms(1) obtain p c r where pcr: "payload = JObj p" "map_of p ''content'' = Some (JObj c)"
    "map_of c ''results'' = Some (JObj r)" "map_of r ''text__moderation'' = Some tm"
    by (rule section_path)
  from assms(2) obtain tk where tk: "tm = JObj tk" "map_of tk ''results'' = Some (JArr entries)"
    using field_SomeD by blast
  show ?thesis
    unfolding process_moderation_results_def using pcr tk
    by (simp add: key_in_iff split: list.splits)
qed

lemma process_moderation_results_lacking:
  assumes "lacks_text_moderation payload"
  shows "process_moderation_results payload t = Inr (0, JStr ''Unknown'', ''success'')"
  using assms
  unfolding lacks_text_moderation_def process_moderation_results_def
  by (auto split: json.splits option.splits simp: key_in_iff)

lemma scan_items_step:
  "is_item x \<Longrightarrow>
   scan_items (x # xs) hc hs =
     (if item_score x > hs then scan_items xs (item_label x) (item_score x)
      else scan_items xs hc hs)"
  by (cases x) (auto simp: item_score_def item_label_def split: option.splits json.splits)


lemma scan_items_le:
  "list_all is_item xs \<Longrightarrow> \<forall>x\<in>set xs. item_score x \<le> hs \<Longrightarrow>
   scan_items xs hc hs = Inr (hc, hs)"
proof (induction xs)
  case Nil
  then show ?case by simp
next
  case (Cons x xs)
  then show ?case by (simp add: scan_items_step del: scan_items.simps)
qed

lemma scan_items_first_max:
  "list_all is_item xs \<Longrightarrow> \<exists>x\<in>set xs. item_score x > hs \<Longrightarrow>
   \<exists>i<length xs. scan_items xs hc hs = Inr (item_label (xs ! i), item_score (xs ! i))
      \<and> hs < item_score (xs ! i)
      \<and> (\<forall>j<i. item_score (xs ! j) < item_score (xs ! i))
      \<and> (\<forall>j<length xs. item_score (xs ! j) \<le> item_score (xs ! i))"
proof (induction xs arbitrary: hc hs)
  case Nil
  then show ?case by simp
next
  case (Cons x xs)
  from Cons.prems have ix: "is_item x" and ixs: "list_all is_item xs" by simp_all
  show ?case
  proof (cases "\<exists>y\<in>set xs. item_score y > max hs (item_score x)")
    case True
    let ?hc = "if item_score x > hs then item_label x else hc"
    have step: "scan_items (x # xs) hc hs = scan_items xs ?hc (max hs (item_score x))"
      using ix by (simp add: scan_items_step max_def del: scan_items.simps)
    from Cons.IH[OF ixs True, of ?hc] obtain i where i: "i < length xs"
      "scan_items xs ?hc (max hs (item_score x)) = Inr (item_label (xs ! i), item_score (xs ! i))"
      "max hs (item_score x) < item_score (xs ! i)"
      "\<forall>j<i. item_score (xs ! j) < item_score (xs ! i)"
      "\<forall>j<length xs. item_score (xs ! j) \<le> item_score (xs ! i)"
      by blast
    have "\<forall>j<Suc i. item_score ((x # xs) ! j) < item_score ((x # xs) ! Suc i)"
      using i(3,4) by (auto simp: nth_Cons split: nat.splits)
    moreover have "\<forall>j<length (x # xs). item_score ((x # xs) ! j) \<le> item_score ((x # xs) ! Suc i)"
      using i(3,5) by (auto simp: nth_Cons split: nat.splits)
    ultimately show ?thesis
      using i(1,2,3) step by (intro exI[of _ "Suc i"]) (simp del: scan_items.simps)
  next
    case False
    then have le: "\<forall>y\<in>set xs. item_score y \<le> max hs (item_score x)" by (auto simp: not_less)
    from Cons.prems(2) False have gt: "item_score x > hs"
      by (auto simp: not_less max_def split: if_splits)
    have "scan_items (x # xs) hc hs = Inr (item_label x, item_score x)"
      using ix gt le scan_items_le[OF ixs, of "item_score x" "item_label x"]
      by (simp add: scan_items_step max_def del: scan_items.simps)
    moreover have "\<forall>j<length (x # xs). item_score ((x # xs) ! j) \<le> item_score x"
      using le gt by (auto simp: nth_Cons max_def split: nat.splits)
    ultimately show ?thesis
      using gt by (intro exI[of _ 0]) (simp del: scan_items.simps)
  qed
qed

lemma interpret_entry_items:
  assumes "entry_score entry = Some s" and "entry_items entry = Some subs"
    and "scan_items subs (JStr ''Unknown'') 0 = Inr (c, m)"
  shows "interpret_entry entry t = Inr (s * 100, c, if s \<ge> t then ''rejected'' else ''validated'')"
  using assms unfolding interpret_entry_def entry_score_def entry_items_def
  by (auto split: json.splits option.splits)


section \<open>Lemmas on the client\<close>

lemma loop_library_error:
  "http env (tr @ [HttpGet url]) = Inl m \<Longrightarrow>
   get_moderation_result_loop env url tr = Some (Inl (LibraryError m), tr @ [HttpGet url])"
  by (subst get_moderation_result_loop.simps) simp

lemma loop_status_error:
  "http env (tr @ [HttpGet url]) = Inr result \<Longrightarrow> reported_status result = Inl e \<Longrightarrow>
   get_moderation_result_loop env url tr = Some (Inl e, tr @ [HttpGet url])"
  by (subst get_moderation_result_loop.simps) simp

lemma loop_step:
  "http env (tr @ [HttpGet url]) = Inr result \<Longrightarrow> reported_status result = Inr status \<Longrightarrow>
   get_moderation_result_loop env url tr =
     (if status = JStr ''succeeded'' then Some (Inr result, tr @ [HttpGet url])
      else if status = JStr ''failed''
        then Some (Inl (ModerationFailedError result), tr @ [HttpGet url])
      else if status = JStr ''processing''
        then get_moderation_result_loop env url (tr @ [HttpGet url, Sleep 5])
      else Some (Inl (UnexpectedStatusError status), tr @ [HttpGet url]))"
  by (subst get_moderation_result_loop.simps) simp





lemma get_moderation_result_url:
  "API_URL_GET st = Some template \<Longrightarrow>
   get_moderation_result st env (JStr h) tr =
     get_moderation_result_loop env (str_replace template ''{execution_id}'' h) tr"
  by (simp add: get_moderation_result_def)

section \<open>Lemmas on the batch runner\<close>















section \<open>The run of the three-row batch\<close>






section \<open>The claims\<close>










text \<open>
  C5, as the script has it. The category is the label of the first sub-item that reaches
  the highest \<^verbatim>\<open>likelihood_score\<close>, provided some sub-item scores above 0; with no
  sub-item at all it is \<open>"Unknown"\<close>.
\<close>

theorem interpret_category_first_maximum:
  assumes "text_moderation_section payload = Some tm"
    and "field tm ''results'' = Some (JArr (entry # rest))"
    and "entry_score entry = Some s"
    and "entry_items entry = Some subs"
    and "list_all is_item subs"
  shows "\<exists>category.
      process_moderation_results payload t =
        Inr (s * 100, category, if s \<ge> t then ''rejected'' else ''validated'')
    \<and> (subs = [] \<longrightarrow> category = JStr ''Unknown'')
    \<and> ((\<exists>x\<in>set subs. 0 < item_score x) \<longrightarrow>
        (\<exists>i<length subs. category = item_label (subs ! i)
           \<and> (\<forall>j<length subs. item_score (subs ! j) \<le> item_score (subs ! i))
           \<and> (\<forall>j<i. item_score (subs ! j) < item_score (subs ! i))))"
proof -
  have eq: "process_moderation_results payload t = interpret_entry entry t"
    using process_moderation_results_section[OF assms(1,2)] by simp
  show ?thesis
  proof (cases "\<exists>x\<in>set subs. 0 < item_score x")
    case True
    then have ne: "subs \<noteq> []" by auto
    from scan_items_first_max[OF assms(5) True, of "JStr ''Unknown''"]
    obtain i where i: "i < length subs"
      "scan_items subs (JStr ''Unknown'') 0 = Inr (item_label (subs ! i), item_score (subs ! i))"
      "\<forall>j<i. item_score (subs ! j) < item_score (subs ! i)"
      "\<forall>j<length subs. item_score (subs ! j) \<le> item_score (subs ! i)"
      by blast
    have "interpret_entry entry t =
        Inr (s * 100, item_label (subs ! i), if s \<ge> t then ''rejected'' else ''validated'')"
      by (rule interpret_entry_items[OF assms(3,4) i(2)])
    with eq i(1,3,4) ne show ?thesis by auto
  next
    case False
    then have "\<forall>x\<in>set subs. item_score x \<le> 0" by (auto simp: not_less)
    then have "scan_items subs (JStr ''Unknown'') 0 = Inr (JStr ''Unknown'', 0)"
      by (rule scan_items_le[OF assms(5)])
    then have "interpret_entry entry t =
        Inr (s * 100, JStr ''Unknown'', if s \<ge> t then ''rejected'' else ''validated'')"
      by (rule interpret_entry_items[OF assms(3,4)])
    with eq False show ?thesis by auto
  qed
qed

theorem interpret_category_first_maximum_witness:
  "text_moderation_section (mk_payload ''succeeded''
       [mk_entry (5 / 10) [mk_item ''A'' (3 / 10), mk_item ''B'' (9 / 10), mk_item ''C'' (9 / 10)]])
     = Some (JObj [(''results'', JArr
       [mk_entry (5 / 10) [mk_item ''A'' (3 / 10), mk_item ''B'' (9 / 10), mk_item ''C'' (9 / 10)]])])
   \<and> entry_score
       (mk_entry (5 / 10) [mk_item ''A'' (3 / 10), mk_item ''B'' (9 / 10), mk_item ''C'' (9 / 10)])
     = Some (5 / 10)
   \<and> entry_items
       (mk_entry (5 / 10) [mk_item ''A'' (3 / 10), mk_item ''B'' (9 / 10), mk_item ''C'' (9 / 10)])
     = Some [mk_item ''A'' (3 / 10), mk_item ''B'' (9 / 10), mk_item ''C'' (9 / 10)]
   \<and> list_all is_item [mk_item ''A'' (3 / 10), mk_item ''B'' (9 / 10), mk_item ''C'' (9 / 10)]
   \<and> 0 < item_score (mk_item ''B'' (9 / 10))
   \<and> process_moderation_results (mk_payload ''succeeded''
       [mk_entry (5 / 10) [mk_item ''A'' (3 / 10), mk_item ''B'' (9 / 10), mk_item ''C'' (9 / 10)]])
       (2 / 10)
     = Inr (50, JStr ''B'', ''rejected'')
   \<and> process_moderation_results (mk_payload ''succeeded'' [mk_entry (5 / 10) []]) (2 / 10)
     = Inr (50, JStr ''Unknown'', ''rejected'')"
  using interpret_category_first_maximum
          [of "mk_payload ''succeeded''
                 [mk_entry (5 / 10) [mk_item ''A'' (3 / 10), mk_item ''B'' (9 / 10), mk_item ''C'' (9 / 10)]]"
              "JObj [(''results'', JArr
                 [mk_entry (5 / 10) [mk_item ''A'' (3 / 10), mk_item ''B'' (9 / 10), mk_item ''C'' (9 / 10)]])]"
              "mk_entry (5 / 10) [mk_item ''A'' (3 / 10), mk_item ''B'' (9 / 10), mk_item ''C'' (9 / 10)]"
              "[]" "5 / 10"
              "[mk_item ''A'' (3 / 10), mk_item ''B'' (9 / 10), mk_item ''C'' (9 / 10)]" "2 / 10"]
  by (simp add: process_moderation_results_def interpret_entry_def text_moderation_section_def
      mk_payload_def mk_entry_def mk_item_def entry_items_def entry_score_def item_score_def)

text \<open>
  C5 as it is written fails on the entry whose only sub-item is \<^verbatim>\<open>A\<close> with the score 0:
  the sub-item list is not empty and its highest score belongs to \<^verbatim>\<open>A\<close>, yet the category
  returned is \<open>"Unknown"\<close>.
\<close>

theorem interpret_category_without_positive_score_counterexample:
  "process_moderation_results
     (mk_payload ''succeeded'' [mk_entry (5 / 10) [mk_item ''A'' 0]]) (2 / 10)
     = Inr (50, JStr ''Unknown'', ''rejected'')
   \<and> item_label (mk_item ''A'' 0) = JStr ''A''
   \<and> item_score (mk_item ''A'' 0) = 0
   \<and> JStr ''Unknown'' \<noteq> JStr ''A''"
  by (simp add: process_moderation_results_def interpret_entry_def mk_payload_def
      mk_entry_def mk_item_def item_label_def item_score_def)

text \<open>
  C6. A payload without the text-moderation section is interpreted as
  \<open>(0, "Unknown", "success")\<close>; one whose text-moderation results list is there and empty as
  \<open>(0, "Unknown", "succeeded")\<close>. The two status strings are different strings, and the
  interpreter returns each as it is.
\<close>

theorem interpret_no_section_or_empty_list:
  "(lacks_text_moderation payload \<longrightarrow>
      process_moderation_results payload t = Inr (0, JStr ''Unknown'', ''success''))
   \<and> (\<forall>tm. text_moderation_section payload = Some tm \<and> field tm ''results'' = Some (JArr []) \<longrightarrow>
      process_moderation_results payload t = Inr (0, JStr ''Unknown'', ''succeeded''))
   \<and> ''success'' \<noteq> ''succeeded''"
  using process_moderation_results_lacking process_moderation_results_section [where entries = "[]"]
  by auto

theorem interpret_no_section_or_empty_list_witness:
  "lacks_text_moderation (JObj [(''content'', JObj [(''status'', JStr ''succeeded'')])])
   \<and> process_moderation_results (JObj [(''content'', JObj [(''status'', JStr ''succeeded'')])]) (2 / 10)
       = Inr (0, JStr ''Unknown'', ''success'')
   \<and> text_moderation_section (mk_payload ''succeeded'' []) = Some (JObj [(''results'', JArr [])])
   \<and> field (JObj [(''results'', JArr [])]) ''results'' = Some (JArr [])
   \<and> process_moderation_results (mk_payload ''succeeded'' []) (2 / 10)
       = Inr (0, JStr ''Unknown'', ''succeeded'')"
  using interpret_no_section_or_empty_list
          [of "JObj [(''content'', JObj [(''status'', JStr ''succeeded'')])]" "2 / 10"]
        interpret_no_section_or_empty_list [of "mk_payload ''succeeded'' []" "2 / 10"]
  by (simp add: lacks_text_moderation_def text_moderation_section_def mk_payload_def)

text \<open>
  C7. Where the table read from the input file lacks the text column (\<open>data_column\<close>),
  \<^verbatim>\<open>process_file\<close> fails with \<open>MissingColumnError\<close> and the history of events is the
  one it started from: nothing was posted, polled, slept or logged, and no row was
  processed.
\<close>

theorem process_file_missing_column:
  assumes "read_excel env file_path = Inr df0"
    and "data_column \<notin> set (columns df0)"
  shows "process_file st env file_path tr = Some (Inl MissingColumnError, tr)"
  using assms by (simp add: process_file_def)

theorem process_file_missing_column_witness:
  "read_excel demo_env ''other.xlsx'' = Inr \<lparr>columns = [''Text''], rows = [\<lambda>c. JStr ''one'']\<rparr>
   \<and> data_column \<notin> set (columns \<lparr>columns = [''Text''], rows = [\<lambda>c. JStr ''one'']\<rparr>)
   \<and> process_file demo_settings demo_env ''other.xlsx'' [] = Some (Inl MissingColumnError, [])"
  using process_file_missing_column
          [of demo_env "''other.xlsx''" "\<lparr>columns = [''Text''], rows = [\<lambda>c. JStr ''one'']\<rparr>"
              demo_settings "[]"]
  by (simp add: demo_env_def test_env_def demo_files_def data_column_def)

text \<open>
  C8. \<^verbatim>\<open>post_text_to_moderate\<close> sends one request and no second one. It fails with
  \<open>SubmissionError\<close> exactly when the response does not contain \<^verbatim>\<open>"id"\<close> (Python's
  \<^verbatim>\<open>"id" in result\<close> is false); for a response that is a dict this is exactly when it has no
  field \<^verbatim>\<open>"id"\<close>, and otherwise the value of that field is returned.
\<close>

theorem post_text_to_moderate_submission_error:
  "snd (post_text_to_moderate st env text tr)
      = tr @ [HttpPost (API_URL_POST st) (JObj [(''text'', text)])]
   \<and> (fst (post_text_to_moderate st env text tr) = Inl SubmissionError \<longleftrightarrow>
        (\<exists>result. http env (tr @ [HttpPost (API_URL_POST st) (JObj [(''text'', text)])]) = Inr result
           \<and> py_contains ''id'' result = Inr False))
   \<and> (\<forall>kvs. http env (tr @ [HttpPost (API_URL_POST st) (JObj [(''text'', text)])]) = Inr (JObj kvs) \<longrightarrow>
        (fst (post_text_to_moderate st env text tr) = Inl SubmissionError
           \<longleftrightarrow> map_of kvs ''id'' = None)
        \<and> (\<forall>v. map_of kvs ''id'' = Some v \<longrightarrow>
              fst (post_text_to_moderate st env text tr) = Inr v))"
proof -
  let ?req = "tr @ [HttpPost (API_URL_POST st) (JObj [(''text'', text)])]"
  have getitem: "py_getitem result ''id'' \<noteq> Inl SubmissionError" for result
    by (cases result) (simp_all split: option.splits)
  have a: "snd (post_text_to_moderate st env text tr) = ?req"
    by (simp add: post_text_to_moderate_def split: sum.splits)
  have b: "fst (post_text_to_moderate st env text tr) = Inl SubmissionError \<longleftrightarrow>
        (\<exists>result. http env ?req = Inr result \<and> py_contains ''id'' result = Inr False)"
  proof (cases "http env ?req")
    case (Inl m)
    then show ?thesis by (simp add: post_text_to_moderate_def)
  next
    case (Inr result)
    show ?thesis
    proof (cases "py_contains ''id'' result")
      case (Inl e)
      have "e = TypeError" using Inl by (cases result) simp_all
      with Inl Inr show ?thesis by (simp add: post_text_to_moderate_def)
    next
      case c: (Inr present)
      with Inr getitem[of result] show ?thesis by (simp add: post_text_to_moderate_def)
    qed
  qed
  have c: "fst (post_text_to_moderate st env text tr) = Inl SubmissionError
           \<longleftrightarrow> map_of kvs ''id'' = None"
    and d: "map_of kvs ''id'' = Some v \<Longrightarrow> fst (post_text_to_moderate st env text tr) = Inr v"
    if "http env ?req = Inr (JObj kvs)" for kvs v
    using that by (auto simp: post_text_to_moderate_def key_in_iff)
  from a b c d show ?thesis by blast
qed

theorem post_text_to_moderate_submission_error_witness:
  "http (test_env (scripted_http reply_without_id [] JNull) no_files)
       ([] @ [HttpPost (API_URL_POST demo_settings) (JObj [(''text'', JStr ''hello'')])])
     = Inr (JObj [(''detail'', JStr ''bad request'')])
   \<and> map_of [(''detail'', JStr ''bad request'')] ''id'' = None
   \<and> post_text_to_moderate demo_settings
       (test_env (scripted_http reply_without_id [] JNull) no_files) (JStr ''hello'') []
     = (Inl SubmissionError, [HttpPost (Some ''/m'') (JObj [(''text'', JStr ''hello'')])])
   \<and> http (test_env (scripted_http reply_with_id [] JNull) no_files)
       ([] @ [HttpPost (API_URL_POST demo_settings) (JObj [(''text'', JStr ''hello'')])])
     = Inr (JObj [(''id'', JStr ''42'')])
   \<and> map_of [(''id'', JStr ''42'')] ''id'' = Some (JStr ''42'')
   \<and> post_text_to_moderate demo_settings
       (test_env (scripted_http reply_with_id [] JNull) no_files) (JStr ''hello'') []
     = (Inr (JStr ''42''), [HttpPost (Some ''/m'') (JObj [(''text'', JStr ''hello'')])])"
  using post_text_to_moderate_submission_error
          [of demo_settings "test_env (scripted_http reply_without_id [] JNull) no_files"
              "JStr ''hello''" "[]"]
        post_text_to_moderate_submission_error
          [of demo_settings "test_env (scripted_http reply_with_id [] JNull) no_files"
              "JStr ''hello''" "[]"]
  by (simp add: post_text_to_moderate_def test_env_def scripted_http_def reply_without_id_def
      reply_with_id_def demo_settings_def)

text \<open>
  C9. Where the first two answers report \<^verbatim>\<open>processing\<close> and the third \<^verbatim>\<open>succeeded\<close>, the
  third payload is returned after three requests and two sleeps of 5 seconds: one after each
  \<^verbatim>\<open>processing\<close> answer, none after the last answer.
\<close>

theorem get_moderation_result_two_sleeps:
  assumes "API_URL_GET st = Some template"
    and "url = str_replace template ''{execution_id}'' h"
    and "http env (tr @ [HttpGet url]) = Inr pa"
    and "reported_status pa = Inr (JStr ''processing'')"
    and "http env (tr @ [HttpGet url, Sleep 5, HttpGet url]) = Inr pb"
    and "reported_status pb = Inr (JStr ''processing'')"
    and "http env (tr @ [HttpGet url, Sleep 5, HttpGet url, Sleep 5, HttpGet url]) = Inr pc"
    and "reported_status pc = Inr (JStr ''succeeded'')"
  shows "get_moderation_result st env (JStr h) tr
           = Some (Inr pc, tr @ [HttpGet url, Sleep 5, HttpGet url, Sleep 5, HttpGet url])
       \<and> sleeps [HttpGet url, Sleep 5, HttpGet url, Sleep 5, HttpGet url] = [5, 5]"
proof -
  have "get_moderation_result st env (JStr h) tr = get_moderation_result_loop env url tr"
    using assms(1,2) by (simp add: get_moderation_result_url)
  also have "\<dots> = get_moderation_result_loop env url (tr @ [HttpGet url, Sleep 5])"
    using loop_step[OF assms(3,4)] by simp
  also have "\<dots> = get_moderation_result_loop env url
                     ((tr @ [HttpGet url, Sleep 5]) @ [HttpGet url, Sleep 5])"
    using loop_step[of env "tr @ [HttpGet url, Sleep 5]" url pb] assms(5,6) by simp
  also have "\<dots> = Some (Inr pc, tr @ [HttpGet url, Sleep 5, HttpGet url, Sleep 5, HttpGet url])"
    using loop_step[of env "tr @ [HttpGet url, Sleep 5, HttpGet url, Sleep 5]" url pc]
      assms(7,8) by simp
  finally show ?thesis by simp
qed

theorem get_moderation_result_two_sleeps_witness:
  "API_URL_GET demo_settings = Some ''/r/{execution_id}''
   \<and> ''/r/42'' = str_replace ''/r/{execution_id}'' ''{execution_id}'' ''42''
   \<and> http (test_env (scripted_http reply_with_id
         [status_payload ''processing'', status_payload ''processing'',
          mk_payload ''succeeded'' []] JNull) no_files)
       ([] @ [HttpGet ''/r/42'', Sleep 5, HttpGet ''/r/42'', Sleep 5, HttpGet ''/r/42''])
     = Inr (mk_payload ''succeeded'' [])
   \<and> reported_status (status_payload ''processing'') = Inr (JStr ''processing'')
   \<and> reported_status (mk_payload ''succeeded'' []) = Inr (JStr ''succeeded'')
   \<and> get_moderation_result demo_settings
       (test_env (scripted_http reply_with_id
         [status_payload ''processing'', status_payload ''processing'',
          mk_payload ''succeeded'' []] JNull) no_files)
       (JStr ''42'') []
     = Some (Inr (mk_payload ''succeeded'' []),
         [HttpGet ''/r/42'', Sleep 5, HttpGet ''/r/42'', Sleep 5, HttpGet ''/r/42''])
   \<and> sleeps [HttpGet ''/r/42'', Sleep 5, HttpGet ''/r/42'', Sleep 5, HttpGet ''/r/42''] = [5, 5]"
  using get_moderation_result_two_sleeps
          [where st = demo_settings and template = "''/r/{execution_id}''" and url = "''/r/42''"
             and h = "''42''" and tr = "[]" and pa = "status_payload ''processing''"
             and pb = "status_payload ''processing''" and pc = "mk_payload ''succeeded'' []"
             and env = "test_env (scripted_http reply_with_id
               [status_payload ''processing'', status_payload ''processing'',
                mk_payload ''succeeded'' []] JNull) no_files"]
  by (simp add: test_env_def scripted_http_def demo_settings_def status_payload_def
      mk_payload_def reported_status_def str_replace_def)

text \<open>
  C10. Where the first entry has sub-items and every one of them scores 0 (a missing
  \<^verbatim>\<open>likelihood_score\<close> counts as 0), the category is \<open>"Unknown"\<close>: no score is strictly above
  the initial highest score 0.
\<close>

theorem interpret_all_zero_scores_unknown:
  assumes "text_moderation_section payload = Some tm"
    and "field tm ''results'' = Some (JArr (entry # rest))"
    and "entry_score entry = Some s"
    and "entry_items entry = Some subs"
    and "subs \<noteq> []"
    and "list_all is_item subs"
    and "list_all (\<lambda>x. item_score x = 0) subs"
  shows "process_moderation_results payload t =
           Inr (s * 100, JStr ''Unknown'', if s \<ge> t then ''rejected'' else ''validated'')"
proof -
  from assms(7) have "\<forall>x\<in>set subs. item_score x \<le> 0" by (simp add: list_all_iff)
  then have "scan_items subs (JStr ''Unknown'') 0 = Inr (JStr ''Unknown'', 0)"
    by (rule scan_items_le[OF assms(6)])
  then have "interpret_entry entry t =
      Inr (s * 100, JStr ''Unknown'', if s \<ge> t then ''rejected'' else ''validated'')"
    by (rule interpret_entry_items[OF assms(3,4)])
  then show ?thesis
    using process_moderation_results_section[OF assms(1,2)] by simp
qed

theorem interpret_all_zero_scores_unknown_witness:
  "text_moderation_section (mk_payload ''succeeded''
       [mk_entry (1 / 10) [mk_item ''A'' 0, JObj [(''category'', JStr ''B'')]]])
     = Some (JObj [(''results'', JArr
       [mk_entry (1 / 10) [mk_item ''A'' 0, JObj [(''category'', JStr ''B'')]]])])
   \<and> entry_score (mk_entry (1 / 10) [mk_item ''A'' 0, JObj [(''category'', JStr ''B'')]])
     = Some (1 / 10)
   \<and> entry_items (mk_entry (1 / 10) [mk_item ''A'' 0, JObj [(''category'', JStr ''B'')]])
     = Some [mk_item ''A'' 0, JObj [(''category'', JStr ''B'')]]
   \<and> [mk_item ''A'' 0, JObj [(''category'', JStr ''B'')]] \<noteq> []
   \<and> list_all is_item [mk_item ''A'' 0, JObj [(''category'', JStr ''B'')]]
   \<and> list_all (\<lambda>x. item_score x = 0) [mk_item ''A'' 0, JObj [(''category'', JStr ''B'')]]
   \<and> process_moderation_results (mk_payload ''succeeded''
       [mk_entry (1 / 10) [mk_item ''A'' 0, JObj [(''category'', JStr ''B'')]]]) (2 / 10)
     = Inr (10, JStr ''Unknown'', ''validated'')"
  using interpret_all_zero_scores_unknown
          [of "mk_payload ''succeeded''
                 [mk_entry (1 / 10) [mk_item ''A'' 0, JObj [(''category'', JStr ''B'')]]]"
              "JObj [(''results'', JArr
                 [mk_entry (1 / 10) [mk_item ''A'' 0, JObj [(''category'', JStr ''B'')]]])]"
              "mk_entry (1 / 10) [mk_item ''A'' 0, JObj [(''category'', JStr ''B'')]]"
              "[]" "1 / 10" "[mk_item ''A'' 0, JObj [(''category'', JStr ''B'')]]" "2 / 10"]
  by (simp add: text_moderation_section_def mk_payload_def mk_entry_def mk_item_def
      entry_items_def entry_score_def item_score_def)

end
